theory Spec2Isabelle
  imports Complex_Main "HOL-Library.Multiset"
begin

section \<open>Strings and paths\<close>

text \<open>
  Python strings are modelled as \<open>string\<close> (lists of bytes; the Chinese messages of the
  program are their UTF-8 bytes). \<open>str.lower\<close> and \<open>str.strip\<close> are modelled on the ASCII
  range: upper-case ASCII letters are lowered, every other character is left alone, and
  the whitespace characters are the ASCII ones that \<open>str.isspace\<close> accepts.
\<close>

definition lower_char :: "char \<Rightarrow> char" where
  "lower_char c =
     (let n = (of_char c :: nat) in if 65 \<le> n \<and> n \<le> 90 then char_of (n + 32) else c)"

definition lower :: "string \<Rightarrow> string" where
  "lower s = map lower_char s"

definition isspace :: "char \<Rightarrow> bool" where
  "isspace c = ((of_char c :: nat) \<in> {9, 10, 11, 12, 13, 28, 29, 30, 31, 32})"

definition strip :: "string \<Rightarrow> string" where
  "strip s = rev (dropWhile isspace (rev (dropWhile isspace s)))"

text \<open>\<open>a or b\<close> on strings: \<open>a\<close> when it is non-empty, else \<open>b\<close>.\<close>

definition py_or :: "string \<Rightarrow> string \<Rightarrow> string" where
  "py_or a b = (if a \<noteq> [] then a else b)"

text \<open>\<open>str.rfind\<close> of one character: the last index where it stands, or \<open>-1\<close>.\<close>

fun rfind :: "char \<Rightarrow> string \<Rightarrow> int" where
  "rfind c [] = -1"
| "rfind c (x # xs) =
     (let r = rfind c xs in if 0 \<le> r then r + 1 else if x = c then 0 else -1)"

text \<open>\<open>str(n)\<close> for an integer, in decimal.\<close>

definition digit_char :: "nat \<Rightarrow> char" where
  "digit_char d = char_of (48 + d)"

function str_nat :: "nat \<Rightarrow> string" where
  "str_nat n = (if n < 10 then [digit_char n] else str_nat (n div 10) @ [digit_char (n mod 10)])"
  by pat_completeness auto
termination
  by (relation "measure id") auto

definition str_int :: "int \<Rightarrow> string" where
  "str_int i = (if i < 0 then CHR ''-'' # str_nat (nat (- i)) else str_nat (nat i))"

text \<open>
  Exceptions. \<open>TimeoutExpired\<close> is \<open>subprocess.TimeoutExpired\<close>; \<open>Exception s\<close> is any other
  instance of \<open>Exception\<close>, carrying \<open>str(e)\<close>.
\<close>

datatype exn = TimeoutExpired | Exception string

text \<open>
  A \<open>pathlib.Path\<close> is the list of its components; \<open>Path(root) / file\<close> appends one.
  The name is the last component (empty for a path with no component).
\<close>

type_synonym path = "string list"

definition name :: "path \<Rightarrow> string" where
  "name p = (if p = [] then [] else last p)"

text \<open>
  \<open>PurePath.suffix\<close>:
  \<^verbatim>\<open>i = name.rfind('.'); return name[i:] if 0 < i < len(name) - 1 else ''\<close>
\<close>

definition suffix_of :: "string \<Rightarrow> string" where
  "suffix_of n =
     (let i = rfind CHR ''.'' n in
      if 0 < i \<and> i < int (length n) - 1 then drop (nat i) n else [])"

definition suffix :: "path \<Rightarrow> string" where
  "suffix p = suffix_of (name p)"

text \<open>
  \<open>PurePath.with_suffix\<close>: a \<open>ValueError\<close> for a suffix that holds a separator, does not
  start with a dot or is a lone dot, and for a path with an empty name; otherwise the old
  suffix (if any) is cut from the name and the new one appended. The texts of the
  \<open>ValueError\<close>s stand for Python's, which print the \<open>repr\<close> of the suffix or path.
\<close>

definition with_suffix :: "path \<Rightarrow> string \<Rightarrow> exn + path" where
  "with_suffix p sfx =
     (if CHR ''/'' \<in> set sfx then Inl (Exception (''Invalid suffix '' @ sfx))
      else if (sfx \<noteq> [] \<and> hd sfx \<noteq> CHR ''.'') \<or> sfx = ''.''
        then Inl (Exception (''Invalid suffix '' @ sfx))
      else if name p = [] then Inl (Exception ''path has an empty name'')
      else
        (let old_suffix = suffix p;
             n = (if old_suffix = [] then name p @ sfx
                  else take (length (name p) - length old_suffix) (name p) @ sfx)
         in Inr (butlast p @ [n])))"

text \<open>\<open>str(path)\<close>: the components joined by the separator; \<open>.\<close> for the empty path.\<close>

fun join_parts :: "string list \<Rightarrow> string" where
  "join_parts [] = []"
| "join_parts [x] = x"
| "join_parts (x # y # ys) = x @ ''/'' @ join_parts (y # ys)"

definition str_path :: "path \<Rightarrow> string" where
  "str_path p = (if p = [] then ''.'' else join_parts p)"

section \<open>Discovery\<close>

definition SUPPORTED_FORMATS :: "string set" where
  "SUPPORTED_FORMATS =
     {''.jpg'', ''.jpeg'', ''.png'', ''.bmp'', ''.gif'', ''.tiff'', ''.tif'', ''.webp''}"

text \<open>
  The directory tree that \<open>os.walk\<close> reads: a file, or a directory with its entries and
  whether it can be listed. Symbolic links are not modelled.
\<close>

datatype node = File string | Dir string bool "node list"

fun is_dir :: "node \<Rightarrow> bool" where
  "is_dir (File n) = False"
| "is_dir (Dir n readable entries) = True"

fun entry_name :: "node \<Rightarrow> string" where
  "entry_name (File n) = n"
| "entry_name (Dir n readable entries) = n"

text \<open>
  \<open>os.walk(top, topdown=True, onerror=None)\<close>. Listing \<open>top\<close> with \<open>os.scandir\<close> raises
  \<open>NotADirectoryError\<close> on a file and \<open>PermissionError\<close> on a directory that cannot be
  listed. The error is handed to \<open>onerror\<close> when one is given (it may raise, which ends
  the walk) and is otherwise ignored: the directory yields nothing and the walk goes on.
  A directory that can be listed yields \<open>(top, dirs, nondirs)\<close> and then its
  subdirectories in order.
\<close>

type_synonym onerror = "(exn \<Rightarrow> exn option) option"

definition on_scandir_error :: "onerror \<Rightarrow> exn \<Rightarrow> exn + (path \<times> string list \<times> string list) list" where
  "on_scandir_error onerr e =
     (case onerr of
        None \<Rightarrow> Inr []
      | Some handler \<Rightarrow> (case handler e of None \<Rightarrow> Inr [] | Some e' \<Rightarrow> Inl e'))"

fun os_walk :: "onerror \<Rightarrow> path \<Rightarrow> node \<Rightarrow> exn + (path \<times> string list \<times> string list) list"
  and walk_subdirs :: "onerror \<Rightarrow> path \<Rightarrow> node list \<Rightarrow> exn + (path \<times> string list \<times> string list) list"
where
  "os_walk onerr dir (File n) = on_scandir_error onerr (Exception (''Not a directory: '' @ n))"
| "os_walk onerr dir (Dir n readable entries) =
     (if \<not> readable then on_scandir_error onerr (Exception (''Permission denied: '' @ n))
      else
        (case walk_subdirs onerr dir entries of
           Inl e \<Rightarrow> Inl e
         | Inr below \<Rightarrow>
             Inr ((dir, map entry_name (filter is_dir entries),
                        map entry_name (filter (\<lambda>x. \<not> is_dir x) entries)) # below)))"
| "walk_subdirs onerr dir [] = Inr []"
| "walk_subdirs onerr dir (File n # rest) = walk_subdirs onerr dir rest"
| "walk_subdirs onerr dir (Dir n readable entries # rest) =
     (case os_walk onerr (dir @ [n]) (Dir n readable entries) of
        Inl e \<Rightarrow> Inl e
      | Inr here \<Rightarrow>
          (case walk_subdirs onerr dir rest of
             Inl e \<Rightarrow> Inl e
           | Inr there \<Rightarrow> Inr (here @ there)))"

text \<open>
  \<open>find_images\<close>: for each \<open>(root, dirs, files)\<close> of the walk and each file of \<open>files\<close>, the
  path \<open>Path(root) / file\<close> is kept when its lowered suffix is a supported format.
\<close>

fun images_in :: "path \<Rightarrow> string list \<Rightarrow> path list" where
  "images_in dirpath [] = []"
| "images_in dirpath (file # files) =
     (let file_path = dirpath @ [file] in
      if lower (suffix file_path) \<in> SUPPORTED_FORMATS
      then file_path # images_in dirpath files else images_in dirpath files)"

fun images_of_walk :: "(path \<times> string list \<times> string list) list \<Rightarrow> path list" where
  "images_of_walk [] = []"
| "images_of_walk ((dirpath, dirs, files) # rest) = images_in dirpath files @ images_of_walk rest"

definition find_images :: "path \<Rightarrow> node \<Rightarrow> exn + path list" where
  "find_images root_dir tree =
     (case os_walk None root_dir tree of
        Inl e \<Rightarrow> Inl e
      | Inr triples \<Rightarrow> Inr (images_of_walk triples))"

section \<open>The world outside the program\<close>

text \<open>
  What \<open>Path.exists\<close> and \<open>Path.stat\<close> see: a size for every path that exists. The world
  also keeps a log of the subprocesses started (command line and timeout) and of the
  paths handed to \<open>unlink\<close>, in order.
\<close>

type_synonym fs = "path \<Rightarrow> nat option"

record world =
  files :: fs
  spawned :: "(string list \<times> nat) list"
  unlinked :: "path list"

record completed_process =
  returncode :: int
  stdout :: string
  stderr :: string

text \<open>
  The external program is a parameter: given the command line, the timeout and the files,
  it raises or completes, and leaves the files as it likes. So is the outcome of
  \<open>unlink\<close>: the text of the exception it raises, or the files after the removal.
\<close>

type_synonym subprocess = "string list \<Rightarrow> nat \<Rightarrow> fs \<Rightarrow> (exn + completed_process) \<times> fs"


definition path_exists :: "world \<Rightarrow> path \<Rightarrow> bool" where
  "path_exists w p = (files w p \<noteq> None)"

definition stat_size :: "world \<Rightarrow> path \<Rightarrow> exn + nat" where
  "stat_size w p =
     (case files w p of
        None \<Rightarrow> Inl (Exception (''No such file or directory: '' @ str_path p))
      | Some n \<Rightarrow> Inr n)"

definition subprocess_run ::
  "subprocess \<Rightarrow> string list \<Rightarrow> nat \<Rightarrow> world \<Rightarrow> (exn + completed_process) \<times> world" where
  "subprocess_run proc cmd timeout w =
     (let (r, fs') = proc cmd timeout (files w)
      in (r, w\<lparr>files := fs', spawned := spawned w @ [(cmd, timeout)]\<rparr>))"



section \<open>The converter\<close>

record converter =
  root_dir :: path
  max_workers :: int
  effort :: int
  converted_files :: "(path \<times> path option) list"
  failed_files :: "(path \<times> string) list"

text \<open>
  The constructor. \<open>which_cjxl\<close> is the answer of \<open>shutil.which('cjxl')\<close>; without the
  program the constructor leaves through \<open>sys.exit(1)\<close>, here \<open>Inl 1\<close>.
\<close>

definition ImageConverter :: "string option \<Rightarrow> path \<Rightarrow> int \<Rightarrow> int \<Rightarrow> int + converter" where
  "ImageConverter which_cjxl rootdir workers eff =
     (let self = \<lparr>root_dir = rootdir, max_workers = workers,
                  effort = min (max eff 1) 9,
                  converted_files = [], failed_files = []\<rparr>
      in if which_cjxl = None then Inl 1 else Inr self)"

text \<open>The three fixed messages of \<open>convert_image\<close> (UTF-8).\<close>

definition msg_target_exists :: string where
  "msg_target_exists =
     [CHR 0xE7, CHR 0x9B, CHR 0xAE, CHR 0xE6, CHR 0xA0, CHR 0x87, CHR 0xE6, CHR 0x96, CHR 0x87,
      CHR 0xE4, CHR 0xBB, CHR 0xB6, CHR 0xE5, CHR 0xB7, CHR 0xB2, CHR 0xE5, CHR 0xAD, CHR 0x98,
      CHR 0xE5, CHR 0x9C, CHR 0xA8]"

definition msg_failed :: string where
  "msg_failed =
     [CHR 0xE8, CHR 0xBD, CHR 0xAC, CHR 0xE6, CHR 0x8D, CHR 0xA2, CHR 0xE5, CHR 0xA4, CHR 0xB1,
      CHR 0xE8, CHR 0xB4, CHR 0xA5]"

definition msg_timeout :: string where
  "msg_timeout =
     [CHR 0xE8, CHR 0xBD, CHR 0xAC, CHR 0xE6, CHR 0x8D, CHR 0xA2, CHR 0xE8, CHR 0xB6, CHR 0x85,
      CHR 0xE6, CHR 0x97, CHR 0xB6]"

text \<open>
  The value \<open>convert_image\<close> returns: \<open>(success, original, new_path, error)\<close>, where
  \<open>new_path\<close> is \<open>None\<close> in the failure branches.
\<close>

type_synonym outcome = "bool \<times> path \<times> path option \<times> string"

definition cjxl_cmd :: "converter \<Rightarrow> path \<Rightarrow> path \<Rightarrow> string list" where
  "cjxl_cmd self image_path output_path =
     [''cjxl'', str_path image_path, str_path output_path,
      ''-d'', ''0'', ''-e'', str_int (effort self), ''--num_threads=1'']"

text \<open>The body of the \<open>try\<close> block of \<open>convert_image\<close>: it raises or returns.\<close>

definition convert_image_try ::
  "converter \<Rightarrow> subprocess \<Rightarrow> path \<Rightarrow> world \<Rightarrow> (exn + outcome) \<times> world" where
  "convert_image_try self proc image_path w =
     (case with_suffix image_path ''.jxl'' of
        Inl e \<Rightarrow> (Inl e, w)
      | Inr output_path \<Rightarrow>
          if path_exists w output_path
          then (Inr (False, image_path, Some output_path, msg_target_exists), w)
          else
            (let (r, w') = subprocess_run proc (cjxl_cmd self image_path output_path) 300 w
             in case r of
                  Inl e \<Rightarrow> (Inl e, w')
                | Inr result \<Rightarrow>
                    if returncode result = 0 \<and> path_exists w' output_path
                    then (Inr (True, image_path, Some output_path, []), w')
                    else
                      (let error_msg =
                             py_or (strip (stderr result)) (py_or (strip (stdout result)) msg_failed)
                       in (Inr (False, image_path, None, error_msg), w'))))"

text \<open>\<open>convert_image\<close>: the \<open>try\<close> block with its two handlers.\<close>

definition convert_image :: "converter \<Rightarrow> subprocess \<Rightarrow> path \<Rightarrow> world \<Rightarrow> outcome \<times> world" where
  "convert_image self proc image_path w =
     (case convert_image_try self proc image_path w of
        (Inr res, w') \<Rightarrow> (res, w')
      | (Inl TimeoutExpired, w') \<Rightarrow> ((False, image_path, None, msg_timeout), w')
      | (Inl (Exception s), w') \<Rightarrow> ((False, image_path, None, s), w'))"

section \<open>The batch\<close>

text \<open>
  What the program prints, one constructor for each \<open>print\<close>. Sizes and ratios are the
  exact rational values (Python computes them in floating point and prints them rounded);
  the elapsed and remaining times, which depend on the clock, are left out.
\<close>

datatype line =
    NoImagesFound
  | FoundImages nat
  | UsingThreads int
  | EffortLevel int
  | ConvertedLine nat nat string rat rat rat
  | FailedLine nat nat string string
  | SkippedLine nat nat string string
  | Separator
  | Finished
  | SuccessCount nat
  | FailedCount nat
  | TotalSize rat rat rat
  | SavedSpace rat
  | NothingToDelete
  | PreparingDelete nat
  | DeletedLine path
  | DeleteFailedLine path string
  | DeleteDone nat nat

text \<open>True division raises \<open>ZeroDivisionError\<close> on a zero divisor.\<close>

definition truediv :: "rat \<Rightarrow> rat \<Rightarrow> exn + rat" where
  "truediv a b = (if b = 0 then Inl (Exception ''division by zero'') else Inr (a / b))"

text \<open>\<open>(new / original * 100) if original > 0 else 0\<close>\<close>

definition ratio_percent :: "rat \<Rightarrow> rat \<Rightarrow> exn + rat" where
  "ratio_percent new_size original_size =
     (if original_size > 0
      then (case truediv new_size original_size of Inl e \<Rightarrow> Inl e | Inr q \<Rightarrow> Inr (q * 100))
      else Inr 0)"

text \<open>\<open>st_size / 1024 / 1024\<close>\<close>

definition mib :: "rat \<Rightarrow> rat" where
  "mib bytes = bytes / 1024 / 1024"

text \<open>
  The order in which the futures complete is not the program's to choose: it is read
  from a schedule, which picks the next future to complete among those still pending.
  Each call of \<open>convert_image\<close> is taken as one step, made when its future completes.
\<close>

function completion_order :: "nat list \<Rightarrow> 'a list \<Rightarrow> 'a list" where
  "completion_order sched pending =
     (if pending = [] then []
      else
        (let i = (case sched of [] \<Rightarrow> 0 | k # ks \<Rightarrow> k mod length pending)
         in pending ! i # completion_order (tl sched) (take i pending @ drop (Suc i) pending)))"
  by pat_completeness auto
termination
proof (relation "measure (\<lambda>(sched, pending). length pending)")
  fix sched :: "nat list" and pending :: "'a list" and i
  assume ne: "pending \<noteq> []"
    and i: "i = (case sched of [] \<Rightarrow> 0 | k # ks \<Rightarrow> k mod length pending)"
  from ne i have "i < length pending"
    by (cases sched) simp_all
  then show "((tl sched, take i pending @ drop (Suc i) pending), (sched, pending))
      \<in> measure (\<lambda>(sched, pending). length pending)"
    by simp
qed simp

declare completion_order.simps [simp del]

text \<open>
  The body of the loop over the completed futures, after \<open>future.result()\<close>: the outcome
  is appended to one of the two lists and its line is printed. In the success branch the
  two sizes are read with \<open>stat\<close>, which raises when the file is not there.
\<close>

definition handle_result ::
  "nat \<Rightarrow> nat \<Rightarrow> outcome \<Rightarrow> converter \<times> world \<times> line list
     \<Rightarrow> exn + (converter \<times> world \<times> line list)" where
  "handle_result n_images completed res st =
     (case (res, st) of ((success, original, new_path, error), (self, w, out)) \<Rightarrow>
        if success then
          (let self' = self\<lparr>converted_files := converted_files self @ [(original, new_path)]\<rparr>
           in case stat_size w original of
                Inl e \<Rightarrow> Inl e
              | Inr original_bytes \<Rightarrow>
                  (case new_path of
                     None \<Rightarrow> Inl (Exception ''NoneType object has no attribute stat'')
                   | Some np \<Rightarrow>
                       (case stat_size w np of
                          Inl e \<Rightarrow> Inl e
                        | Inr new_bytes \<Rightarrow>
                            (let original_size = mib (of_nat original_bytes);
                                 new_size = mib (of_nat new_bytes)
                             in case ratio_percent new_size original_size of
                                  Inl e \<Rightarrow> Inl e
                                | Inr ratio \<Rightarrow>
                                    Inr (self', w,
                                         out @ [ConvertedLine completed n_images (name original)
                                                  original_size new_size ratio])))))
        else
          (let self' = self\<lparr>failed_files := failed_files self @ [(original, error)]\<rparr>
           in if error \<noteq> msg_target_exists
              then Inr (self', w, out @ [FailedLine completed n_images (name original) error])
              else Inr (self', w, out @ [SkippedLine completed n_images (name original) error])))"

text \<open>The loop over \<open>as_completed(futures)\<close>; \<open>completed\<close> counts the futures seen.\<close>

fun collect ::
  "subprocess \<Rightarrow> nat \<Rightarrow> nat \<Rightarrow> path list \<Rightarrow> converter \<times> world \<times> line list
     \<Rightarrow> exn + (converter \<times> world \<times> line list)" where
  "collect proc n_images completed [] st = Inr st"
| "collect proc n_images completed (img # rest) st =
     (case st of (self, w, out) \<Rightarrow>
        (let (res, w') = convert_image self proc img w
         in case handle_result n_images (Suc completed) res (self, w', out) of
              Inl e \<Rightarrow> Inl e
            | Inr st' \<Rightarrow> collect proc n_images (Suc completed) rest st'))"

text \<open>
  \<open>sum(f[0].stat().st_size for f in converted_files)\<close> and the same for \<open>f[1]\<close>: the
  files are read when the sum is taken.
\<close>

fun total_original_size :: "world \<Rightarrow> (path \<times> path option) list \<Rightarrow> exn + nat" where
  "total_original_size w [] = Inr 0"
| "total_original_size w ((original, new_path) # rest) =
     (case stat_size w original of
        Inl e \<Rightarrow> Inl e
      | Inr n \<Rightarrow> (case total_original_size w rest of Inl e \<Rightarrow> Inl e | Inr m \<Rightarrow> Inr (n + m)))"

fun total_new_size :: "world \<Rightarrow> (path \<times> path option) list \<Rightarrow> exn + nat" where
  "total_new_size w [] = Inr 0"
| "total_new_size w ((original, new_path) # rest) =
     (case new_path of
        None \<Rightarrow> Inl (Exception ''NoneType object has no attribute stat'')
      | Some np \<Rightarrow>
          (case stat_size w np of
             Inl e \<Rightarrow> Inl e
           | Inr n \<Rightarrow> (case total_new_size w rest of Inl e \<Rightarrow> Inl e | Inr m \<Rightarrow> Inr (n + m))))"

text \<open>The statistics printed after the pool has finished.\<close>

definition summary :: "converter \<Rightarrow> world \<Rightarrow> exn + line list" where
  "summary self w =
     (let head = [Separator, Finished, SuccessCount (length (converted_files self)),
                  FailedCount (length (failed_files self))]
      in if converted_files self \<noteq> [] then
           (case total_original_size w (converted_files self) of
              Inl e \<Rightarrow> Inl e
            | Inr total_original \<Rightarrow>
                (case total_new_size w (converted_files self) of
                   Inl e \<Rightarrow> Inl e
                 | Inr total_new \<Rightarrow>
                     (case ratio_percent (of_nat total_new) (of_nat total_original) of
                        Inl e \<Rightarrow> Inl e
                      | Inr ratio \<Rightarrow>
                          (let saved = mib (of_int (int total_original - int total_new))
                           in Inr (head @ [TotalSize (mib (of_nat total_original))
                                             (mib (of_nat total_new)) ratio,
                                           SavedSpace saved, Separator])))))
         else Inr (head @ [Separator]))"

text \<open>
  \<open>convert_all\<close>. \<open>tree\<close> is the directory tree discovery walks and \<open>sched\<close> the
  schedule of the pool. \<open>ThreadPoolExecutor\<close> raises \<open>ValueError\<close> for a worker count
  below one.
\<close>

definition convert_all ::
  "converter \<Rightarrow> subprocess \<Rightarrow> nat list \<Rightarrow> node \<Rightarrow> world
     \<Rightarrow> exn + (converter \<times> world \<times> line list)" where
  "convert_all self proc sched tree w =
     (case find_images (root_dir self) tree of
        Inl e \<Rightarrow> Inl e
      | Inr images \<Rightarrow>
          if images = [] then Inr (self, w, [NoImagesFound])
          else
            (let out = [FoundImages (length images), UsingThreads (max_workers self),
                        EffortLevel (effort self)]
             in if max_workers self \<le> 0
                then Inl (Exception ''max_workers must be greater than 0'')
                else
                  (case collect proc (length images) 0 (completion_order sched images)
                          (self, w, out) of
                     Inl e \<Rightarrow> Inl e
                   | Inr (self', w', out') \<Rightarrow>
                       (case summary self' w' of
                          Inl e \<Rightarrow> Inl e
                        | Inr ls \<Rightarrow> Inr (self', w', out' @ ls)))))"

section \<open>Cleanup\<close>



section \<open>An assumption and an invariant\<close>



section \<open>Concrete runs\<close>

text \<open>
  A picture directory with an upper-case extension, an output of an earlier run, a
  subdirectory that cannot be listed and one that can.
\<close>

definition demo_tree :: node where
  "demo_tree =
     Dir ''pics'' True
       [File ''a.PNG'', File ''b.jxl'',
        Dir ''private'' False [File ''c.jpg''],
        Dir ''s2'' True [File ''d.webp'', File ''e.txt'']]"

text \<open>
  The converter that \<open>ImageConverter("pics", 8, 7)\<close> builds.
\<close>

definition demo_converter :: converter where
  "demo_converter =
     \<lparr>root_dir = [''pics''], max_workers = 8, effort = 7,
      converted_files = [], failed_files = []\<rparr>"

text \<open>
  The directory of the specification's scenario: \<open>a.png\<close> with no output yet,
  \<open>b.jpg\<close> whose output \<open>b.jxl\<close> is already there, and \<open>c.bmp\<close>, on which the
  program exits with code 1, printing \<open>boom\<close> on its standard output and a bare line
  feed on its standard error.
\<close>

definition batch_tree :: node where
  "batch_tree = Dir ''pics'' True [File ''a.png'', File ''b.jpg'', File ''b.jxl'', File ''c.bmp'']"

definition batch_world :: world where
  "batch_world =
     \<lparr>files = [[''pics'', ''a.png''] \<mapsto> 2097152, [''pics'', ''b.jpg''] \<mapsto> 1048576,
               [''pics'', ''b.jxl''] \<mapsto> 524288, [''pics'', ''c.bmp''] \<mapsto> 3145728],
      spawned = [], unlinked = []\<rparr>"

definition batch_proc :: subprocess where
  "batch_proc cmd timeout f =
     (if cmd ! 1 = ''pics/a.png''
      then (Inr \<lparr>returncode = 0, stdout = [], stderr = []\<rparr>, f([''pics'', ''a.jxl''] \<mapsto> 1048576))
      else (Inr \<lparr>returncode = 1, stdout = ''boom'', stderr = [CHR 0x0A]\<rparr>, f))"

text \<open>
  The converter that \<open>ImageConverter("pics", 8, 12)\<close> builds.
\<close>

definition eager_converter :: converter where
  "eager_converter = demo_converter\<lparr>effort := 9\<rparr>"

text \<open>
  A program that never finishes in time, and one that cannot be started.
\<close>

definition stalled_proc :: subprocess where
  "stalled_proc cmd timeout f = (Inl TimeoutExpired, f)"

definition missing_proc :: subprocess where
  "missing_proc cmd timeout f = (Inl (Exception ''No such file or directory: cjxl''), f)"


text \<open>
  Two pictures, and a program under which the first output is written again, larger,
  while the second picture is converted.
\<close>

definition pair_tree :: node where
  "pair_tree = Dir ''pics'' True [File ''a.png'', File ''b.png'']"

definition pair_world :: world where
  "pair_world =
     \<lparr>files = [[''pics'', ''a.png''] \<mapsto> 2097152, [''pics'', ''b.png''] \<mapsto> 2097152],
      spawned = [], unlinked = []\<rparr>"

definition regrow_proc :: subprocess where
  "regrow_proc cmd timeout f =
     (if cmd ! 1 = ''pics/a.png''
      then (Inr \<lparr>returncode = 0, stdout = [], stderr = []\<rparr>, f([''pics'', ''a.jxl''] \<mapsto> 1048576))
      else (Inr \<lparr>returncode = 0, stdout = [], stderr = []\<rparr>,
            f([''pics'', ''b.jxl''] \<mapsto> 1048576, [''pics'', ''a.jxl''] \<mapsto> 3145728)))"

text \<open>What a run of \<open>convert_all\<close> printed.\<close>

definition printed :: "exn + (converter \<times> world \<times> line list) \<Rightarrow> exn + line list" where
  "printed r = (case r of Inl e \<Rightarrow> Inl e | Inr (self, w, out) \<Rightarrow> Inr out)"


text \<open>
  A converter that has recorded one success whose two files are in \<open>batch_world\<close>.
\<close>

definition summary_converter :: converter where
  "summary_converter =
     demo_converter\<lparr>converted_files := [([''pics'', ''a.png''], Some [''pics'', ''b.jxl''])]\<rparr>"

section \<open>Properties of paths and discovery\<close>

lemma rfind_lt: "rfind c s < int (length s)"
  by (induction s) (auto simp: Let_def)

lemma rfind_notin: "c \<notin> set s \<Longrightarrow> rfind c s = - 1"
  by (induction s) (auto simp: Let_def)

lemma rfind_append_last: "c \<notin> set ys \<Longrightarrow> rfind c (xs @ c # ys) = int (length xs)"
  by (induction xs) (auto simp: Let_def rfind_notin)

lemma suffix_of_jxl: "stem \<noteq> [] \<Longrightarrow> suffix_of (stem @ ''.jxl'') = ''.jxl''"
proof -
  assume ne: "stem \<noteq> []"
  have r: "rfind CHR ''.'' (stem @ CHR ''.'' # ''jxl'') = int (length stem)"
    by (rule rfind_append_last) simp
  from ne have "0 < length stem" by simp
  with r show ?thesis
    by (simp add: suffix_of_def)
qed

lemma suffix_of_stem: "suffix_of n \<noteq> [] \<Longrightarrow> take (length n - length (suffix_of n)) n \<noteq> []"
  using rfind_lt[of "CHR ''.''" n]
  by (auto simp: suffix_of_def Let_def split: if_splits)

lemma name_snoc: "name (xs @ [n]) = n"
  by (simp add: name_def)

text \<open>The output path of a conversion always carries the suffix \<open>.jxl\<close>.\<close>

lemma with_suffix_jxl:
  assumes "with_suffix p ''.jxl'' = Inr out"
  shows "suffix out = ''.jxl''"
proof -
  from assms have ne: "name p \<noteq> []"
    by (auto simp: with_suffix_def split: if_splits)
  define stem where "stem = (if suffix p = [] then name p
     else take (length (name p) - length (suffix p)) (name p))"
  have stem: "stem \<noteq> []"
    using ne suffix_of_stem[of "name p"] by (auto simp: stem_def suffix_def)
  from assms have "out = butlast p @ [stem @ ''.jxl'']"
    by (auto simp: with_suffix_def stem_def Let_def split: if_splits)
  then show ?thesis
    using suffix_of_jxl[OF stem] by (simp add: suffix_def name_snoc)
qed

lemma lower_jxl: "lower ''.jxl'' = ''.jxl''"
  by (simp add: lower_def lower_char_def)

lemma jxl_not_supported: "''.jxl'' \<notin> SUPPORTED_FORMATS"
  by (simp add: SUPPORTED_FORMATS_def)



lemma images_in_supported:
  "p \<in> set (images_in d fs) \<Longrightarrow> lower (suffix p) \<in> SUPPORTED_FORMATS"
  by (induction fs) (auto simp: Let_def split: if_splits)

lemma images_of_walk_supported:
  "p \<in> set (images_of_walk ts) \<Longrightarrow> lower (suffix p) \<in> SUPPORTED_FORMATS"
  by (induction ts rule: images_of_walk.induct) (auto dest: images_in_supported)

lemma find_images_supported:
  "find_images r t = Inr ps \<Longrightarrow> p \<in> set ps \<Longrightarrow> lower (suffix p) \<in> SUPPORTED_FORMATS"
  unfolding find_images_def
  by (auto split: sum.splits dest: images_of_walk_supported)

lemma demo_tree_images:
  "find_images [''pics''] demo_tree = Inr [[''pics'', ''a.PNG''], [''pics'', ''s2'', ''d.webp'']]"
  by code_simp

text \<open>
  Claim C10. Every path that \<open>find_images\<close> returns has a lowered suffix in
  \<open>SUPPORTED_FORMATS\<close>; \<open>.jxl\<close> is not in that set, so the suffix is not \<open>.jxl\<close>, and no
  path that \<open>convert_image\<close> derives as an output (\<open>with_suffix('.jxl')\<close> of any path) is
  ever returned by discovery.
\<close>

theorem C10_discovery_never_selects_outputs:
  assumes "find_images rootdir tree = Inr images" and "p \<in> set images"
  shows "lower (suffix p) \<in> SUPPORTED_FORMATS \<and> ''.jxl'' \<notin> SUPPORTED_FORMATS
    \<and> lower (suffix p) \<noteq> ''.jxl'' \<and> (\<forall>q. with_suffix q ''.jxl'' \<noteq> Inr p)"
proof -
  have sup: "lower (suffix p) \<in> SUPPORTED_FORMATS"
    using assms by (rule find_images_supported)
  then have ne: "lower (suffix p) \<noteq> ''.jxl''"
    using jxl_not_supported by auto
  have "with_suffix q ''.jxl'' \<noteq> Inr p" for q
  proof
    assume "with_suffix q ''.jxl'' = Inr p"
    then have "suffix p = ''.jxl''" by (rule with_suffix_jxl)
    with ne show False by (simp add: lower_jxl)
  qed
  with sup ne jxl_not_supported show ?thesis by blast
qed

text \<open>
  The theorem on \<open>demo_tree\<close>, for the picture \<open>a.PNG\<close> that discovery returns.
\<close>

theorem C10_witness:
  "find_images [''pics''] demo_tree = Inr [[''pics'', ''a.PNG''], [''pics'', ''s2'', ''d.webp'']]
   \<and> lower (suffix [''pics'', ''a.PNG'']) \<in> SUPPORTED_FORMATS
   \<and> lower (suffix [''pics'', ''a.PNG'']) \<noteq> ''.jxl''
   \<and> (\<forall>q. with_suffix q ''.jxl'' \<noteq> Inr [''pics'', ''a.PNG''])"
  using C10_discovery_never_selects_outputs[OF demo_tree_images, of "[''pics'', ''a.PNG'']"]
    demo_tree_images
  by simp




section \<open>Properties of one conversion\<close>

text \<open>
  \<open>convert_image\<close>, branch by branch.
\<close>

lemma convert_image_skip:
  assumes "with_suffix img ''.jxl'' = Inr out" and "path_exists w out"
  shows "convert_image self proc img w = ((False, img, Some out, msg_target_exists), w)"
  using assms by (simp add: convert_image_def convert_image_try_def)

lemma convert_image_no_output_path:
  assumes "with_suffix img ''.jxl'' = Inl (Exception s)"
  shows "convert_image self proc img w = ((False, img, None, s), w)"
  using assms by (simp add: convert_image_def convert_image_try_def)

lemma with_suffix_raises: "with_suffix p sfx = Inl e \<Longrightarrow> \<exists>s. e = Exception s"
  by (auto simp: with_suffix_def Let_def split: if_splits)

lemma convert_image_run:
  assumes "with_suffix img ''.jxl'' = Inr out" and "\<not> path_exists w out"
    and "proc (cjxl_cmd self img out) 300 (files w) = (r, fs')"
  shows "convert_image self proc img w =
    ((case r of
        Inl TimeoutExpired \<Rightarrow> (False, img, None, msg_timeout)
      | Inl (Exception s) \<Rightarrow> (False, img, None, s)
      | Inr result \<Rightarrow>
          if returncode result = 0 \<and> fs' out \<noteq> None then (True, img, Some out, [])
          else (False, img, None,
                py_or (strip (stderr result)) (py_or (strip (stdout result)) msg_failed))),
     w\<lparr>files := fs', spawned := spawned w @ [(cjxl_cmd self img out, 300)]\<rparr>)"
  using assms
  by (auto simp: convert_image_def convert_image_try_def subprocess_run_def path_exists_def
      split: sum.splits exn.splits)


text \<open>What one call of \<open>convert_image\<close> returns and leaves behind.\<close>

lemma convert_image_cases:
  obtains (no_output) s where "with_suffix img ''.jxl'' = Inl (Exception s)"
      "convert_image self proc img w = ((False, img, None, s), w)"
  | (skipped) outp where "with_suffix img ''.jxl'' = Inr outp" "path_exists w outp"
      "convert_image self proc img w = ((False, img, Some outp, msg_target_exists), w)"
  | (succeeded) outp r fs' where "with_suffix img ''.jxl'' = Inr outp" "\<not> path_exists w outp"
      "proc (cjxl_cmd self img outp) 300 (files w) = (r, fs')" "fs' outp \<noteq> None"
      "convert_image self proc img w =
         ((True, img, Some outp, []),
          w\<lparr>files := fs', spawned := spawned w @ [(cjxl_cmd self img outp, 300)]\<rparr>)"
  | (failed) outp r fs' err where "with_suffix img ''.jxl'' = Inr outp" "\<not> path_exists w outp"
      "proc (cjxl_cmd self img outp) 300 (files w) = (r, fs')"
      "convert_image self proc img w =
         ((False, img, None, err),
          w\<lparr>files := fs', spawned := spawned w @ [(cjxl_cmd self img outp, 300)]\<rparr>)"
proof (cases "with_suffix img ''.jxl''")
  case (Inl e)
  then obtain s where "e = Exception s"
    using with_suffix_raises by blast
  with Inl show ?thesis
    using no_output convert_image_no_output_path by blast
next
  case (Inr outp)
  show ?thesis
  proof (cases "path_exists w outp")
    case True
    with Inr show ?thesis
      using skipped convert_image_skip by blast
  next
    case False
    obtain r fs' where run: "proc (cjxl_cmd self img outp) 300 (files w) = (r, fs')"
      by (cases "proc (cjxl_cmd self img outp) 300 (files w)")
    note ci = convert_image_run[where proc = proc and self = self, OF Inr False run]
    show ?thesis
    proof (cases "\<exists>result. r = Inr result \<and> returncode result = 0 \<and> fs' outp \<noteq> None")
      case True
      with ci have "convert_image self proc img w =
         ((True, img, Some outp, []),
          w\<lparr>files := fs', spawned := spawned w @ [(cjxl_cmd self img outp, 300)]\<rparr>)"
        by auto
      with Inr False run True show ?thesis
        using succeeded by blast
    next
      case no: False
      have "\<exists>err. convert_image self proc img w =
         ((False, img, None, err),
          w\<lparr>files := fs', spawned := spawned w @ [(cjxl_cmd self img outp, 300)]\<rparr>)"
      proof (cases r)
        case (Inl e)
        with ci show ?thesis by (cases e) simp_all
      next
        case (Inr result)
        with ci no show ?thesis by auto
      qed
      with Inr False run show ?thesis
        using failed by blast
    qed
  qed
qed

lemma convert_image_success_value:
  assumes "fst (fst (convert_image self proc img w))"
  shows "\<exists>outp. fst (convert_image self proc img w) = (True, img, Some outp, [])"
  using assms
  by (cases rule: convert_image_cases[where img = img and self = self and proc = proc and w = w])
    simp_all

section \<open>The concrete runs, evaluated\<close>


lemma demo_converter_fields:
  "root_dir demo_converter = [''pics'']" "max_workers demo_converter = 8"
  "effort demo_converter = 7" "converted_files demo_converter = []"
  "failed_files demo_converter = []"
  by (simp_all add: demo_converter_def)

lemma eager_converter_init:
  "ImageConverter (Some ''/usr/bin/cjxl'') [''pics''] 8 12 = Inr eager_converter"
  by (simp add: ImageConverter_def demo_converter_def eager_converter_def)

lemma a_png_output: "with_suffix [''pics'', ''a.png''] ''.jxl'' = Inr [''pics'', ''a.jxl'']"
  by code_simp

lemma b_jpg_output: "with_suffix [''pics'', ''b.jpg''] ''.jxl'' = Inr [''pics'', ''b.jxl'']"
  by code_simp

lemma c_bmp_output: "with_suffix [''pics'', ''c.bmp''] ''.jxl'' = Inr [''pics'', ''c.jxl'']"
  by code_simp

lemma b_png_output: "with_suffix [''pics'', ''b.png''] ''.jxl'' = Inr [''pics'', ''b.jxl'']"
  by code_simp

lemma a_jxl_absent: "\<not> path_exists batch_world [''pics'', ''a.jxl'']"
  by (simp add: path_exists_def batch_world_def)


lemma str_path_a_png: "str_path [''pics'', ''a.png''] = ''pics/a.png''"
  by (simp add: str_path_def)

lemma str_path_a_jxl: "str_path [''pics'', ''a.jxl''] = ''pics/a.jxl''"
  by (simp add: str_path_def)

lemma str_int_digit: "0 \<le> i \<Longrightarrow> i \<le> 9 \<Longrightarrow> str_int i = [digit_char (nat i)]"
  by (simp add: str_int_def)

lemma str_int_7: "str_int 7 = ''7''"
  by code_simp

lemma str_int_9: "str_int 9 = ''9''"
  by code_simp

lemma name_2: "name [d, n] = n"
  by (simp add: name_def)

lemma strip_newline: "strip [CHR 0x0A] = []"
  by (simp add: strip_def isspace_def)

lemma strip_boom: "strip ''boom'' = ''boom''"
  by (simp add: strip_def isspace_def)



lemma pair_images:
  "find_images [''pics''] pair_tree = Inr [[''pics'', ''a.png''], [''pics'', ''b.png'']]"
  by code_simp

lemma batch_images:
  "find_images [''pics''] batch_tree
   = Inr [[''pics'', ''a.png''], [''pics'', ''b.jpg''], [''pics'', ''c.bmp'']]"
  by code_simp

lemma completion_order_Nil_sched: "completion_order [] xs = xs"
proof (induction xs)
  case Nil
  then show ?case by (subst completion_order.simps) simp
next
  case (Cons x xs)
  then show ?case by (subst completion_order.simps) simp
qed

lemma ratio_percent_eq: "ratio_percent a b = Inr (if 0 < b then a / b * 100 else 0)"
  by (simp add: ratio_percent_def truediv_def)

lemma mib_ratio: "mib a / mib b = a / b"
  by (simp add: mib_def)

lemma mib_pos: "0 < mib (of_nat n) \<longleftrightarrow> 0 < n"
  by (simp add: mib_def)

lemmas run_defs =
  convert_all_def convert_image_def convert_image_try_def path_exists_def subprocess_run_def
  handle_result_def stat_size_def summary_def ratio_percent_eq mib_def name_2 Let_def
  cjxl_cmd_def str_path_def str_int_7 completion_order_Nil_sched demo_converter_fields
  a_png_output b_jpg_output c_bmp_output b_png_output py_or_def strip_newline strip_boom

lemma batch_run:
  "printed (convert_all demo_converter batch_proc [] batch_tree batch_world)
   = Inr [FoundImages 3, UsingThreads 8, EffortLevel 7,
          ConvertedLine 1 3 ''a.png'' 2 1 50,
          SkippedLine 2 3 ''b.jpg'' msg_target_exists,
          FailedLine 3 3 ''c.bmp'' ''boom'',
          Separator, Finished, SuccessCount 1, FailedCount 2,
          TotalSize 2 1 50, SavedSpace 1, Separator]"
  by (simp add: printed_def run_defs batch_images batch_proc_def batch_world_def
      msg_target_exists_def)




lemma summary_converter_summary:
  "summary summary_converter batch_world
   = Inr [Separator, Finished, SuccessCount 1, FailedCount 0, TotalSize 2 (1 / 2) 25,
          SavedSpace (3 / 2), Separator]"
  by (simp add: summary_def summary_converter_def demo_converter_def stat_size_def
      batch_world_def ratio_percent_eq mib_def Let_def)


section \<open>The outcome of one conversion\<close>




text \<open>
  Claim C4. The constructor clamps the effort into 1..9, and every call of
  \<open>convert_image\<close> starts either no subprocess (the output exists, or no output path
  can be derived) or exactly one, with the command line
  \<open>cjxl <input> <output> -d 0 -e <effort> --num_threads=1\<close> and the timeout 300.
\<close>

theorem C4_codec_arguments:
  assumes "ImageConverter which rootdir workers eff = Inr self"
  shows "effort self = (if eff < 1 then 1 else if 9 < eff then 9 else eff)
    \<and> 1 \<le> effort self \<and> effort self \<le> 9
    \<and> str_int (effort self) = [digit_char (nat (effort self))]
    \<and> spawned (snd (convert_image self proc img w)) = spawned w @
        (case with_suffix img ''.jxl'' of
           Inl e \<Rightarrow> []
         | Inr out \<Rightarrow>
             if path_exists w out then []
             else [([''cjxl'', str_path img, str_path out, ''-d'', ''0'', ''-e'',
                     str_int (effort self), ''--num_threads=1''], 300)])"
proof -
  from assms have eff: "effort self = min (max eff 1) 9"
    by (auto simp: ImageConverter_def Let_def split: if_splits)
  then have range: "1 \<le> effort self" "effort self \<le> 9"
    by auto
  have log: "spawned (snd (convert_image self proc img w)) = spawned w @
        (case with_suffix img ''.jxl'' of
           Inl e \<Rightarrow> []
         | Inr out \<Rightarrow>
             if path_exists w out then []
             else [(cjxl_cmd self img out, 300)])"
  proof (cases "with_suffix img ''.jxl''")
    case (Inl e)
    then show ?thesis
      using with_suffix_raises[OF Inl] by (auto simp: convert_image_no_output_path)
  next
    case (Inr out)
    show ?thesis
    proof (cases "path_exists w out")
      case True
      then show ?thesis using Inr by (simp add: convert_image_skip)
    next
      case False
      obtain r fs' where "proc (cjxl_cmd self img out) 300 (files w) = (r, fs')"
        by (cases "proc (cjxl_cmd self img out) 300 (files w)")
      from convert_image_run[where proc = proc and self = self, OF Inr False this] show ?thesis
        using Inr False by simp
    qed
  qed
  have clamp: "effort self = (if eff < 1 then 1 else if 9 < eff then 9 else eff)"
    using eff by auto
  have digit: "str_int (effort self) = [digit_char (nat (effort self))]"
    using range by (intro str_int_digit) auto
  note log [unfolded cjxl_cmd_def]
  with clamp range digit show ?thesis
    by blast
qed

text \<open>
  The theorem for an effort of 12, clamped to 9, and the command line for \<open>a.png\<close>.
\<close>

theorem C4_witness:
  "ImageConverter (Some ''/usr/bin/cjxl'') [''pics''] 8 12 = Inr eager_converter
   \<and> effort eager_converter = 9
   \<and> spawned (snd (convert_image eager_converter batch_proc [''pics'', ''a.png''] batch_world))
      = [([''cjxl'', ''pics/a.png'', ''pics/a.jxl'', ''-d'', ''0'', ''-e'', ''9'',
           ''--num_threads=1''], 300)]"
proof -
  have e9: "effort eager_converter = 9"
    by (simp add: eager_converter_def)
  have s0: "spawned batch_world = []"
    by (simp add: batch_world_def)
  show ?thesis
    using C4_codec_arguments[OF eager_converter_init, of batch_proc "[''pics'', ''a.png'']"
        batch_world]
      eager_converter_init a_png_output a_jxl_absent
    by (simp add: e9 s0 str_path_a_png str_path_a_jxl str_int_9)
qed

text \<open>
  Claim C5. Whatever the \<open>try\<close> block raises, \<open>convert_image\<close> returns a failure
  for its image: the fixed timeout message when the subprocess (started with the timeout
  300) raises \<open>TimeoutExpired\<close>, and the text of the exception otherwise, be it
  raised by the subprocess or while the output path is derived.
\<close>

theorem C5_convert_image_never_raises:
  "(with_suffix img ''.jxl'' = Inl (Exception s) \<longrightarrow>
      convert_image self proc img w = ((False, img, None, s), w))
   \<and> (with_suffix img ''.jxl'' = Inr out \<longrightarrow> \<not> path_exists w out \<longrightarrow>
      proc (cjxl_cmd self img out) 300 (files w) = (Inl TimeoutExpired, fs') \<longrightarrow>
      fst (convert_image self proc img w) = (False, img, None, msg_timeout))
   \<and> (with_suffix img ''.jxl'' = Inr out \<longrightarrow> \<not> path_exists w out \<longrightarrow>
      proc (cjxl_cmd self img out) 300 (files w) = (Inl (Exception s), fs') \<longrightarrow>
      fst (convert_image self proc img w) = (False, img, None, s))
   \<and> (convert_image_try self proc img w = (Inl e, w') \<longrightarrow>
      (\<exists>msg. convert_image self proc img w = ((False, img, None, msg), w')))
   \<and> fst (snd (fst (convert_image self proc img w))) = img"
proof (intro conjI impI)
  assume "with_suffix img ''.jxl'' = Inl (Exception s)"
  then show "convert_image self proc img w = ((False, img, None, s), w)"
    by (rule convert_image_no_output_path)
next
  assume "with_suffix img ''.jxl'' = Inr out" "\<not> path_exists w out"
    "proc (cjxl_cmd self img out) 300 (files w) = (Inl TimeoutExpired, fs')"
  from convert_image_run[where proc = proc and self = self, OF this]
  show "fst (convert_image self proc img w) = (False, img, None, msg_timeout)"
    by simp
next
  assume "with_suffix img ''.jxl'' = Inr out" "\<not> path_exists w out"
    "proc (cjxl_cmd self img out) 300 (files w) = (Inl (Exception s), fs')"
  from convert_image_run[where proc = proc and self = self, OF this]
  show "fst (convert_image self proc img w) = (False, img, None, s)"
    by simp
next
  assume "convert_image_try self proc img w = (Inl e, w')"
  then show "\<exists>msg. convert_image self proc img w = ((False, img, None, msg), w')"
    by (cases e) (simp_all add: convert_image_def)
next
  show "fst (snd (fst (convert_image self proc img w))) = img"
    by (auto simp: convert_image_def convert_image_try_def subprocess_run_def
        split: sum.splits exn.splits prod.splits)
qed

text \<open>
  The theorem on a program that times out, on one that cannot be started, and on the
  empty path, for which no output path can be derived.
\<close>

theorem C5_witness:
  "fst (convert_image demo_converter stalled_proc [''pics'', ''a.png''] batch_world)
     = (False, [''pics'', ''a.png''], None, msg_timeout)
   \<and> fst (convert_image demo_converter missing_proc [''pics'', ''a.png''] batch_world)
     = (False, [''pics'', ''a.png''], None, ''No such file or directory: cjxl'')
   \<and> convert_image demo_converter batch_proc [] batch_world
     = ((False, [], None, ''path has an empty name''), batch_world)"
proof -
  have empty: "with_suffix [] ''.jxl'' = Inl (Exception ''path has an empty name'')"
    by code_simp
  have stalled: "stalled_proc (cjxl_cmd demo_converter [''pics'', ''a.png''] [''pics'', ''a.jxl''])
      300 (files batch_world) = (Inl TimeoutExpired, files batch_world)"
    by (simp add: stalled_proc_def)
  have missing: "missing_proc (cjxl_cmd demo_converter [''pics'', ''a.png''] [''pics'', ''a.jxl''])
      300 (files batch_world)
      = (Inl (Exception ''No such file or directory: cjxl''), files batch_world)"
    by (simp add: missing_proc_def)
  from C5_convert_image_never_raises[of "[''pics'', ''a.png'']" _ demo_converter stalled_proc
      batch_world "[''pics'', ''a.jxl'']" "files batch_world"]
    a_png_output a_jxl_absent stalled
  have 1: "fst (convert_image demo_converter stalled_proc [''pics'', ''a.png''] batch_world)
     = (False, [''pics'', ''a.png''], None, msg_timeout)"
    by blast
  from C5_convert_image_never_raises[of "[''pics'', ''a.png'']"
      "''No such file or directory: cjxl''" demo_converter missing_proc
      batch_world "[''pics'', ''a.jxl'']" "files batch_world"]
    a_png_output a_jxl_absent missing
  have 2: "fst (convert_image demo_converter missing_proc [''pics'', ''a.png''] batch_world)
     = (False, [''pics'', ''a.png''], None, ''No such file or directory: cjxl'')"
    by blast
  from C5_convert_image_never_raises[of "[]" "''path has an empty name''" demo_converter
      batch_proc batch_world] empty
  have 3: "convert_image demo_converter batch_proc [] batch_world
     = ((False, [], None, ''path has an empty name''), batch_world)"
    by blast
  from 1 2 3 show ?thesis by blast
qed

section \<open>The loop over the completed futures\<close>






lemma handle_result_success_line:
  assumes "handle_result n k (True, original, Some np, err) (self, w, out) = Inr (self', w', out')"
  shows "\<exists>ob nb. files w original = Some ob \<and> files w np = Some nb
     \<and> out' = out @ [ConvertedLine k n (name original) (mib (of_nat ob)) (mib (of_nat nb))
                       (if ob = 0 then 0 else of_nat nb / of_nat ob * 100)]"
  using assms
  by (auto simp: handle_result_def stat_size_def ratio_percent_eq mib_ratio mib_pos Let_def
      split: sum.splits option.splits)











lemma total_original_size_sum:
  "total_original_size w conv = Inr t \<Longrightarrow>
     t = (\<Sum>(original, new_path) \<leftarrow> conv. the (files w original))"
  by (induction conv arbitrary: t)
    (auto simp: stat_size_def split: sum.splits option.splits)

lemma total_new_size_sum:
  "total_new_size w conv = Inr t \<Longrightarrow>
     t = (\<Sum>(original, new_path) \<leftarrow> conv. the (files w (the new_path)))"
  by (induction conv arbitrary: t)
    (auto simp: stat_size_def split: sum.splits option.splits)


lemma summary_Inr:
  assumes "summary self w = Inr ls" and "converted_files self \<noteq> []"
  obtains tob tnb where
    "total_original_size w (converted_files self) = Inr tob"
    "total_new_size w (converted_files self) = Inr tnb"
    "ls = [Separator, Finished, SuccessCount (length (converted_files self)),
           FailedCount (length (failed_files self)),
           TotalSize (mib (of_nat tob)) (mib (of_nat tnb))
             (if tob = 0 then 0 else of_nat tnb / of_nat tob * 100),
           SavedSpace (mib (of_int (int tob - int tnb))), Separator]"
  using assms
  by (auto simp: summary_def ratio_percent_eq Let_def split: sum.splits)


lemma convert_all_Inr:
  assumes "convert_all self proc sched tree w = Inr (self', w', out)"
    and "find_images (root_dir self) tree = Inr images"
  obtains (nothing) "images = []" "self' = self" "w' = w" "out = [NoImagesFound]"
  | (batch) out1 ls where "images \<noteq> []" "0 < max_workers self"
      "collect proc (length images) 0 (completion_order sched images)
         (self, w, [FoundImages (length images), UsingThreads (max_workers self),
                    EffortLevel (effort self)]) = Inr (self', w', out1)"
      "summary self' w' = Inr ls" "out = out1 @ ls"
  using assms
  by (auto simp: convert_all_def Let_def split: if_splits sum.splits)



section \<open>Running the batch again\<close>







section \<open>Sizes and ratios\<close>

text \<open>
  Claim C7, as amended. The value \<open>convert_image\<close> returns for a success holds the two
  paths and no size. The sizes on the line printed for a completed future are read from
  the files as they are when the main loop handles that future, and the totals of the
  summary are the sums of the sizes the recorded files have when the summary is
  computed, on the files the whole pool left behind: they are read again.
\<close>

theorem C7_sizes_are_read_when_printed:
  "(fst (fst (convert_image self proc img w)) \<longrightarrow>
      (\<exists>outp. fst (convert_image self proc img w) = (True, img, Some outp, [])))
   \<and> (handle_result n k (True, original, Some np, err) (self1, w1, out1) = Inr (self1', w1', out1')
        \<longrightarrow>
      (\<exists>ob nb. files w1 original = Some ob \<and> files w1 np = Some nb
         \<and> out1' = out1 @ [ConvertedLine k n (name original) (mib (of_nat ob)) (mib (of_nat nb))
                             (if ob = 0 then 0 else of_nat nb / of_nat ob * 100)]))
   \<and> (converted_files self2 \<noteq> [] \<longrightarrow> summary self2 w2 = Inr ls \<longrightarrow>
      (\<exists>tob tnb.
         tob = (\<Sum>(original, new_path) \<leftarrow> converted_files self2. the (files w2 original))
         \<and> tnb = (\<Sum>(original, new_path) \<leftarrow> converted_files self2. the (files w2 (the new_path)))
         \<and> ls = [Separator, Finished, SuccessCount (length (converted_files self2)),
                  FailedCount (length (failed_files self2)),
                  TotalSize (mib (of_nat tob)) (mib (of_nat tnb))
                    (if tob = 0 then 0 else of_nat tnb / of_nat tob * 100),
                  SavedSpace (mib (of_int (int tob - int tnb))), Separator]))
   \<and> (find_images (root_dir self3) tree = Inr images \<longrightarrow> images \<noteq> [] \<longrightarrow>
      convert_all self3 proc3 sched tree w3 = Inr (self3', w3', out3) \<longrightarrow>
      (\<exists>pre ls3. out3 = pre @ ls3 \<and> summary self3' w3' = Inr ls3))"
proof (intro conjI impI)
  assume "fst (fst (convert_image self proc img w))"
  then show "\<exists>outp. fst (convert_image self proc img w) = (True, img, Some outp, [])"
    by (rule convert_image_success_value)
next
  assume "handle_result n k (True, original, Some np, err) (self1, w1, out1)
    = Inr (self1', w1', out1')"
  then show "\<exists>ob nb. files w1 original = Some ob \<and> files w1 np = Some nb
         \<and> out1' = out1 @ [ConvertedLine k n (name original) (mib (of_nat ob)) (mib (of_nat nb))
                             (if ob = 0 then 0 else of_nat nb / of_nat ob * 100)]"
    by (rule handle_result_success_line)
next
  assume ne: "converted_files self2 \<noteq> []" and s: "summary self2 w2 = Inr ls"
  from s ne obtain tob tnb where
    t: "total_original_size w2 (converted_files self2) = Inr tob"
      "total_new_size w2 (converted_files self2) = Inr tnb"
    and ls: "ls = [Separator, Finished, SuccessCount (length (converted_files self2)),
           FailedCount (length (failed_files self2)),
           TotalSize (mib (of_nat tob)) (mib (of_nat tnb))
             (if tob = 0 then 0 else of_nat tnb / of_nat tob * 100),
           SavedSpace (mib (of_int (int tob - int tnb))), Separator]"
    by (rule summary_Inr)
  from total_original_size_sum[OF t(1)] total_new_size_sum[OF t(2)] ls
  show "\<exists>tob tnb.
         tob = (\<Sum>(original, new_path) \<leftarrow> converted_files self2. the (files w2 original))
         \<and> tnb = (\<Sum>(original, new_path) \<leftarrow> converted_files self2. the (files w2 (the new_path)))
         \<and> ls = [Separator, Finished, SuccessCount (length (converted_files self2)),
                  FailedCount (length (failed_files self2)),
                  TotalSize (mib (of_nat tob)) (mib (of_nat tnb))
                    (if tob = 0 then 0 else of_nat tnb / of_nat tob * 100),
                  SavedSpace (mib (of_int (int tob - int tnb))), Separator]"
    by blast
next
  assume found: "find_images (root_dir self3) tree = Inr images" and ne: "images \<noteq> []"
    and run: "convert_all self3 proc3 sched tree w3 = Inr (self3', w3', out3)"
  from run found show "\<exists>pre ls3. out3 = pre @ ls3 \<and> summary self3' w3' = Inr ls3"
  proof (cases rule: convert_all_Inr)
    case nothing
    with ne show ?thesis by simp
  next
    case (batch out1 ls)
    then show ?thesis by blast
  qed
qed

text \<open>
  The theorem on the summary of \<open>summary_converter\<close> over the files of \<open>batch_world\<close>.
\<close>

theorem C7_witness:
  "converted_files summary_converter \<noteq> []
   \<and> summary summary_converter batch_world
     = Inr [Separator, Finished, SuccessCount 1, FailedCount 0, TotalSize 2 (1 / 2) 25,
            SavedSpace (3 / 2), Separator]
   \<and> (\<exists>tob tnb.
         tob = (\<Sum>(original, new_path) \<leftarrow> converted_files summary_converter.
                  the (files batch_world original))
         \<and> tnb = (\<Sum>(original, new_path) \<leftarrow> converted_files summary_converter.
                    the (files batch_world (the new_path)))
         \<and> tob = 2097152 \<and> tnb = 524288
         \<and> [Separator, Finished, SuccessCount 1, FailedCount 0, TotalSize 2 (1 / 2) 25,
             SavedSpace (3 / 2), Separator]
           = [Separator, Finished, SuccessCount (length (converted_files summary_converter)),
              FailedCount (length (failed_files summary_converter)),
              TotalSize (mib (of_nat tob)) (mib (of_nat tnb))
                (if tob = 0 then 0 else of_nat tnb / of_nat tob * 100),
              SavedSpace (mib (of_int (int tob - int tnb))), Separator])"
proof -
  have ne: "converted_files summary_converter \<noteq> []"
    by (simp add: summary_converter_def)
  from C7_sizes_are_read_when_printed[THEN conjunct2, THEN conjunct2, THEN conjunct1,
      rule_format, OF ne summary_converter_summary]
  obtain tob tnb where
    t: "tob = (\<Sum>(original, new_path) \<leftarrow> converted_files summary_converter.
                  the (files batch_world original))"
      "tnb = (\<Sum>(original, new_path) \<leftarrow> converted_files summary_converter.
                    the (files batch_world (the new_path)))"
    and ls: "[Separator, Finished, SuccessCount 1, FailedCount 0, TotalSize 2 (1 / 2) 25,
             SavedSpace (3 / 2), Separator]
           = [Separator, Finished, SuccessCount (length (converted_files summary_converter)),
              FailedCount (length (failed_files summary_converter)),
              TotalSize (mib (of_nat tob)) (mib (of_nat tnb))
                (if tob = 0 then 0 else of_nat tnb / of_nat tob * 100),
              SavedSpace (mib (of_int (int tob - int tnb))), Separator]"
    by blast
  have v: "tob = 2097152" "tnb = 524288"
    unfolding t by (simp_all add: summary_converter_def batch_world_def)
  from ne summary_converter_summary t ls v show ?thesis
    by (intro conjI exI)
qed

text \<open>
  The claim as the specification states it fails. In this run each of the two lines
  printed on completion shows an output of 1 MiB, 2 MiB together, and the summary shows
  a total output of 4 MiB: the summary has read the sizes again, after the first output
  had grown.
\<close>

theorem C7_counterexample:
  "printed (convert_all demo_converter regrow_proc [] pair_tree pair_world)
   = Inr [FoundImages 2, UsingThreads 8, EffortLevel 7,
          ConvertedLine 1 2 ''a.png'' 2 1 50,
          ConvertedLine 2 2 ''b.png'' 2 1 50,
          Separator, Finished, SuccessCount 2, FailedCount 0,
          TotalSize 4 4 100, SavedSpace 0, Separator]"
  by (simp add: printed_def run_defs pair_images regrow_proc_def pair_world_def)

text \<open>
  Claim C9. The ratio printed for a success is \<open>new / original * 100\<close>, and 0 when the
  original size is 0; the same holds for the totals of the summary. Computing it never
  raises \<open>ZeroDivisionError\<close>. (Sizes and ratios are exact rationals here.)
\<close>

theorem C9_ratio_guarded_against_zero:
  "(stat_size w original = Inr ob \<longrightarrow> stat_size w np = Inr nb \<longrightarrow>
      handle_result n k (True, original, Some np, err) (self, w, out) =
        Inr (self\<lparr>converted_files := converted_files self @ [(original, Some np)]\<rparr>, w,
             out @ [ConvertedLine k n (name original) (mib (of_nat ob)) (mib (of_nat nb))
                      (if ob = 0 then 0 else of_nat nb / of_nat ob * 100)]))
   \<and> (converted_files self \<noteq> [] \<longrightarrow>
      total_original_size w (converted_files self) = Inr tob \<longrightarrow>
      total_new_size w (converted_files self) = Inr tnb \<longrightarrow>
      summary self w =
        Inr [Separator, Finished, SuccessCount (length (converted_files self)),
             FailedCount (length (failed_files self)),
             TotalSize (mib (of_nat tob)) (mib (of_nat tnb))
               (if tob = 0 then 0 else of_nat tnb / of_nat tob * 100),
             SavedSpace (mib (of_int (int tob - int tnb))), Separator])
   \<and> ratio_percent a b = Inr (if b > 0 then a / b * 100 else 0)"
proof (intro conjI impI)
  assume "stat_size w original = Inr ob" "stat_size w np = Inr nb"
  then show "handle_result n k (True, original, Some np, err) (self, w, out) =
        Inr (self\<lparr>converted_files := converted_files self @ [(original, Some np)]\<rparr>, w,
             out @ [ConvertedLine k n (name original) (mib (of_nat ob)) (mib (of_nat nb))
                      (if ob = 0 then 0 else of_nat nb / of_nat ob * 100)])"
    by (simp add: handle_result_def ratio_percent_eq mib_ratio mib_pos Let_def)
next
  assume "converted_files self \<noteq> []"
    "total_original_size w (converted_files self) = Inr tob"
    "total_new_size w (converted_files self) = Inr tnb"
  then show "summary self w =
        Inr [Separator, Finished, SuccessCount (length (converted_files self)),
             FailedCount (length (failed_files self)),
             TotalSize (mib (of_nat tob)) (mib (of_nat tnb))
               (if tob = 0 then 0 else of_nat tnb / of_nat tob * 100),
             SavedSpace (mib (of_int (int tob - int tnb))), Separator]"
    by (simp add: summary_def ratio_percent_eq Let_def)
next
  show "ratio_percent a b = Inr (if b > 0 then a / b * 100 else 0)"
    by (rule ratio_percent_eq)
qed

text \<open>
  The theorem on an original of size 0, on sizes 1 and 2, and on a line of the main
  loop for a 2 MiB original with a 512 KiB output.
\<close>

theorem C9_witness:
  "ratio_percent 5 0 = Inr 0 \<and> ratio_percent 1 2 = Inr 50
   \<and> stat_size batch_world [''pics'', ''a.png''] = Inr 2097152
   \<and> stat_size batch_world [''pics'', ''b.jxl''] = Inr 524288
   \<and> handle_result 3 1 (True, [''pics'', ''a.png''], Some [''pics'', ''b.jxl''], [])
        (demo_converter, batch_world, [])
      = Inr (demo_converter\<lparr>converted_files :=
               converted_files demo_converter @ [([''pics'', ''a.png''], Some [''pics'', ''b.jxl''])]\<rparr>,
             batch_world,
             [ConvertedLine 1 3 ''a.png'' 2 (1 / 2) 25])"
proof -
  have a: "stat_size batch_world [''pics'', ''a.png''] = Inr 2097152"
    by (simp add: stat_size_def batch_world_def)
  have b: "stat_size batch_world [''pics'', ''b.jxl''] = Inr 524288"
    by (simp add: stat_size_def batch_world_def)
  have n: "name [''pics'', ''a.png''] = ''a.png''"
    by (simp add: name_def)
  from C9_ratio_guarded_against_zero[of batch_world "[''pics'', ''a.png'']" 2097152
      "[''pics'', ''b.jxl'']" 524288 3 1 "[]" demo_converter "[]" _ _ 5 0]
  have "ratio_percent 5 0 = Inr 0" by simp
  moreover
  from C9_ratio_guarded_against_zero[of batch_world "[''pics'', ''a.png'']" 2097152
      "[''pics'', ''b.jxl'']" 524288 3 1 "[]" demo_converter "[]" _ _ 1 2]
  have "ratio_percent 1 2 = Inr 50" by simp
  moreover
  from C9_ratio_guarded_against_zero[of batch_world "[''pics'', ''a.png'']" 2097152
      "[''pics'', ''b.jxl'']" 524288 3 1 "[]" demo_converter "[]" _ _ 1 2] a b
  have "handle_result 3 1 (True, [''pics'', ''a.png''], Some [''pics'', ''b.jxl''], [])
        (demo_converter, batch_world, [])
      = Inr (demo_converter\<lparr>converted_files :=
               converted_files demo_converter @ [([''pics'', ''a.png''], Some [''pics'', ''b.jxl''])]\<rparr>,
             batch_world,
             [ConvertedLine 1 3 ''a.png'' 2 (1 / 2) 25])"
    by (simp add: n mib_def)
  ultimately show ?thesis using a b by blast
qed

section \<open>Properties of the cleanup\<close>




end
